theory Spec2Isabelle
  imports Complex_Main "HOL-Library.Sublist"
begin

section \<open>Python values, exceptions and library calls\<close>

text \<open>
  The repository is Python. Values that travel through the pipeline (database rows,
  HTTP response bodies, agent outputs) are JSON-like values or pydantic objects.
  A dictionary is an association list with string keys (JSON objects; insertion order is
  kept, keys are distinct, lookup is \<open>map_of\<close>); a pydantic object is a list of attributes.
  Strings are lists of 8-bit characters; numbers with a fraction are carried as rationals
  (only their truth value and equality are ever inspected).
\<close>

datatype pyval =
    PNone
  | PBool bool
  | PInt int
  | PFloat rat
  | PStr string
  | PList "pyval list"
  | PDict "(string \<times> pyval) list"
  | PObj "(string \<times> pyval) list"

datatype py_exn =
    AttributeError
  | TypeError
  | KeyError
  | IndexError
  | ValidationError
  | RequestException
  | JSONDecodeError
  | ValueError
  | RecursionError
  | RuntimeError
  | HTTPException

text \<open>An HTTP response as \<open>requests\<close> hands it out: \<open>resp.status_code\<close>, \<open>resp.text\<close>
  and the outcome of \<open>resp.json()\<close>, which raises on a body that is not JSON.\<close>

record response =
  status_code :: int
  resp_text :: string
  resp_json :: "py_exn + pyval"

text \<open>
  A text handed to \<open>json.loads\<close> or to the regular-expression search is a list of Unicode
  code points, so that every Python string is a text; \<open>text_of\<close> embeds the 8-bit strings
  carried by \<open>PStr\<close>.
\<close>

type_synonym utext = "nat list"

definition text_of :: "string \<Rightarrow> utext" where
  "text_of s = map of_char s"

text \<open>
  What the code calls but does not define: \<open>str()\<close> of a value (used by f-strings) and of
  an exception, \<open>json.loads\<close> and \<open>requests.get\<close> by URL. \<open>json.loads\<close> returns the parsed
  value or raises: \<open>JSONDecodeError\<close> on a text that is not JSON, and other exceptions as
  well (CPython raises \<open>ValueError\<close> on an integer literal of more than 4300 digits and
  \<open>RecursionError\<close> on deep nesting).
\<close>

record env =
  py_str :: "pyval \<Rightarrow> string"
  exn_str :: "py_exn \<Rightarrow> string"
  json_loads :: "utext \<Rightarrow> py_exn + pyval"
  requests_get :: "string \<Rightarrow> py_exn + response"

fun truthy :: "pyval \<Rightarrow> bool" where
  "truthy PNone = False"
| "truthy (PBool b) = b"
| "truthy (PInt i) = (i \<noteq> 0)"
| "truthy (PFloat r) = (r \<noteq> 0)"
| "truthy (PStr s) = (s \<noteq> [])"
| "truthy (PList xs) = (xs \<noteq> [])"
| "truthy (PDict kvs) = (kvs \<noteq> [])"
| "truthy (PObj attrs) = True"

fun is_dict :: "pyval \<Rightarrow> bool" where
  "is_dict (PDict kvs) = True"
| "is_dict v = False"

fun is_str :: "pyval \<Rightarrow> bool" where
  "is_str (PStr s) = True"
| "is_str v = False"

fun the_str :: "pyval \<Rightarrow> string" where
  "the_str (PStr s) = s"
| "the_str v = []"

text \<open>\<open>d.get(k, default)\<close>: only a dictionary has the method.\<close>

fun dict_get :: "pyval \<Rightarrow> string \<Rightarrow> pyval \<Rightarrow> py_exn + pyval" where
  "dict_get (PDict kvs) k d = Inr (case map_of kvs k of Some v \<Rightarrow> v | None \<Rightarrow> d)"
| "dict_get v k d = Inl AttributeError"

text \<open>\<open>d[k]\<close> with a string key: \<open>KeyError\<close> on a dictionary without the key, \<open>TypeError\<close> on
  anything that is not a dictionary.\<close>

fun py_getitem :: "pyval \<Rightarrow> string \<Rightarrow> py_exn + pyval" where
  "py_getitem (PDict kvs) k = (case map_of kvs k of Some v \<Rightarrow> Inr v | None \<Rightarrow> Inl KeyError)"
| "py_getitem v k = Inl TypeError"

text \<open>\<open>x[0]\<close>: the first element of a list or string; a dictionary with string keys has no
  key \<open>0\<close>.\<close>

fun py_first :: "pyval \<Rightarrow> py_exn + pyval" where
  "py_first (PList []) = Inl IndexError"
| "py_first (PList (x # xs)) = Inr x"
| "py_first (PStr []) = Inl IndexError"
| "py_first (PStr (c # cs)) = Inr (PStr [c])"
| "py_first (PDict kvs) = Inl KeyError"
| "py_first v = Inl TypeError"

text \<open>\<open>xs[:n]\<close>: a negative bound counts from the end.\<close>

definition py_slice_to :: "int \<Rightarrow> 'a list \<Rightarrow> 'a list" where
  "py_slice_to n xs = (if 0 \<le> n then take (nat n) xs else take (length xs - nat (- n)) xs)"

text \<open>\<open>for item in v\<close>: a list gives its elements, a dictionary its keys, a string its
  characters; nothing else is iterable.\<close>

fun py_iter :: "pyval \<Rightarrow> py_exn + pyval list" where
  "py_iter (PList xs) = Inr xs"
| "py_iter (PDict kvs) = Inr (map (\<lambda>kv. PStr (fst kv)) kvs)"
| "py_iter (PStr s) = Inr (map (\<lambda>c. PStr [c]) s)"
| "py_iter v = Inl TypeError"

text \<open>\<open>str.isspace\<close> on the code points below 256, \<open>str.strip()\<close>, \<open>str.split(sep)\<close> for a
  one-character separator and \<open>sep.join(parts)\<close>.\<close>

definition is_space :: "char \<Rightarrow> bool" where
  "is_space c = ((of_char c :: nat) \<in> {9, 10, 11, 12, 13, 28, 29, 30, 31, 32, 133, 160})"

definition strip :: "string \<Rightarrow> string" where
  "strip s = rev (dropWhile is_space (rev (dropWhile is_space s)))"

fun split_on :: "char \<Rightarrow> string \<Rightarrow> string list" where
  "split_on sep [] = [[]]"
| "split_on sep (c # cs) =
     (let r = split_on sep cs in
      if c = sep then [] # r else (c # hd r) # tl r)"

fun join :: "string \<Rightarrow> string list \<Rightarrow> string" where
  "join sep [] = []"
| "join sep [p] = p"
| "join sep (p # q # ps) = p @ sep @ join sep (q # ps)"

text \<open>\<open>sep.join(v)\<close> on a value: every item must be a string.\<close>

fun py_join :: "string \<Rightarrow> pyval \<Rightarrow> py_exn + string" where
  "py_join sep (PList xs) =
     (if list_all is_str xs then Inr (join sep (map the_str xs)) else Inl TypeError)"
| "py_join sep (PStr s) = Inr (join sep (map (\<lambda>c. [c]) s))"
| "py_join sep (PDict kvs) = Inr (join sep (map fst kvs))"
| "py_join sep v = Inl TypeError"

section \<open>The directory client (\<open>mcp_demo/orcid_improved.py\<close>)\<close>

definition ORCID_BASE :: string where
  "ORCID_BASE = ''https://pub.orcid.org/v3.0''"

subsection \<open>\<open>search_orcid_researchers\<close>\<close>

text \<open>The query built from the comma-separated keywords: two or more keywords are read as
  given name and family name, a single one as a text search.\<close>

definition build_query :: "string \<Rightarrow> string" where
  "build_query keywords =
     (let kws = map strip (split_on CHR '','' keywords) in
      if 2 \<le> length kws
      then ''given-names:'' @ kws ! 0 @ ''+AND+family-name:'' @ kws ! 1
      else join ''+AND+'' (map (\<lambda>kw. ''text:'' @ kw) kws))"

definition search_url :: "string \<Rightarrow> string" where
  "search_url keywords = ORCID_BASE @ ''/expanded-search/?q='' @ build_query keywords"

text \<open>The body of the \<open>for item in results\<close> loop: one researcher dictionary per hit.\<close>

definition researcher_of_item :: "env \<Rightarrow> pyval \<Rightarrow> py_exn + pyval" where
  "researcher_of_item E item =
     (case dict_get item ''orcid-id'' PNone of Inl e \<Rightarrow> Inl e | Inr orcid_id \<Rightarrow>
      case dict_get item ''given-names'' (PStr []) of Inl e \<Rightarrow> Inl e | Inr given_names \<Rightarrow>
      case dict_get item ''family-names'' (PStr []) of Inl e \<Rightarrow> Inl e | Inr family_names \<Rightarrow>
      let name = strip (py_str E given_names @ '' '' @ py_str E family_names) in
      case dict_get item ''institution-name'' (PList []) of Inl e \<Rightarrow> Inl e
      | Inr institution_names \<Rightarrow>
      case (if truthy institution_names then py_join '', '' institution_names else Inr [])
      of Inl e \<Rightarrow> Inl e | Inr affiliation \<Rightarrow>
        Inr (PDict [(''orcid'', orcid_id), (''name'', PStr name),
                    (''affiliation'', PStr affiliation), (''given_names'', given_names),
                    (''family_names'', family_names),
                    (''institution_names'', institution_names)]))"

fun collect_researchers :: "env \<Rightarrow> pyval list \<Rightarrow> py_exn + pyval list" where
  "collect_researchers E [] = Inr []"
| "collect_researchers E (item # items) =
     (case researcher_of_item E item of Inl e \<Rightarrow> Inl e | Inr r \<Rightarrow>
      case collect_researchers E items of Inl e \<Rightarrow> Inl e | Inr rs \<Rightarrow> Inr (r # rs))"

text \<open>The \<open>try\<close> block of \<open>search_orcid_researchers\<close>; \<open>Inl\<close> is an exception raised inside
  it. The \<open>institution\<close> argument is not read anywhere in the block.\<close>

definition search_body :: "env \<Rightarrow> string \<Rightarrow> int option \<Rightarrow> py_exn + pyval" where
  "search_body E keywords limit =
     (case requests_get E (search_url keywords) of Inl e \<Rightarrow> Inl e | Inr resp \<Rightarrow>
      if status_code resp \<noteq> 200
      then Inr (PDict [(''researchers'', PList []), (''total_found'', PInt 0),
                       (''error'', PStr (''HTTP '' @ py_str E (PInt (status_code resp))
                                          @ '': '' @ resp_text resp))])
      else
      case resp_json resp of Inl e \<Rightarrow> Inl e | Inr data \<Rightarrow>
      case dict_get data ''expanded-result'' (PList []) of Inl e \<Rightarrow> Inl e | Inr results \<Rightarrow>
      case dict_get data ''num-found'' (PInt 0) of Inl e \<Rightarrow> Inl e | Inr num_found \<Rightarrow>
      if \<not> truthy results
      then Inr (PDict [(''researchers'', PList []), (''total_found'', num_found)])
      else
      case py_iter results of Inl e \<Rightarrow> Inl e | Inr items \<Rightarrow>
      case collect_researchers E items of Inl e \<Rightarrow> Inl e | Inr researchers \<Rightarrow>
        Inr (PDict [(''researchers'',
                       PList (case limit of None \<Rightarrow> researchers
                              | Some n \<Rightarrow> py_slice_to n researchers)),
                    (''total_found'', num_found)]))"

definition search_orcid_researchers ::
  "env \<Rightarrow> string \<Rightarrow> int option \<Rightarrow> string option \<Rightarrow> pyval" where
  "search_orcid_researchers E keywords limit institution =
     (case search_body E keywords limit of
        Inr r \<Rightarrow> r
      | Inl e \<Rightarrow> PDict [(''researchers'', PList []), (''total_found'', PInt 0),
                        (''error'', PStr (''Search error: '' @ exn_str E e))])"

text \<open>Reading a key of a returned dictionary.\<close>

fun py_field :: "pyval \<Rightarrow> string \<Rightarrow> pyval option" where
  "py_field (PDict kvs) k = map_of kvs k"
| "py_field (PObj attrs) k = map_of attrs k"
| "py_field v k = None"

subsection \<open>\<open>get_works\<close>\<close>

text \<open>\<open>groups[:limit]\<close> followed by iteration: lists and strings can be sliced.\<close>

fun py_slice_iter :: "pyval \<Rightarrow> int \<Rightarrow> py_exn + pyval list" where
  "py_slice_iter (PList xs) n = Inr (py_slice_to n xs)"
| "py_slice_iter (PStr s) n = Inr (map (\<lambda>c. PStr [c]) (py_slice_to n s))"
| "py_slice_iter v n = Inl TypeError"

text \<open>\<open>w.get(a, {}).get(b, {}).get("value")\<close>.\<close>

definition nested_value :: "pyval \<Rightarrow> string \<Rightarrow> string \<Rightarrow> py_exn + pyval" where
  "nested_value w a b =
     (case dict_get w a (PDict []) of Inl e \<Rightarrow> Inl e | Inr x \<Rightarrow>
      case dict_get x b (PDict []) of Inl e \<Rightarrow> Inl e | Inr y \<Rightarrow>
      dict_get y ''value'' PNone)"

text \<open>The loop body: \<open>w = g["work-summary"][0]\<close> and the entry built from \<open>w\<close>.\<close>

definition first_summary :: "pyval \<Rightarrow> py_exn + pyval" where
  "first_summary g =
     (case py_getitem g ''work-summary'' of Inl e \<Rightarrow> Inl e | Inr ws \<Rightarrow> py_first ws)"

definition work_entry :: "pyval \<Rightarrow> py_exn + pyval" where
  "work_entry w =
     (case py_getitem w ''put-code'' of Inl e \<Rightarrow> Inl e | Inr put_code \<Rightarrow>
      case nested_value w ''title'' ''title'' of Inl e \<Rightarrow> Inl e | Inr title \<Rightarrow>
      case nested_value w ''publication-date'' ''year'' of Inl e \<Rightarrow> Inl e | Inr year \<Rightarrow>
        Inr (PDict [(''put_code'', put_code), (''title'', title), (''year'', year)]))"

definition work_of_group :: "pyval \<Rightarrow> py_exn + pyval" where
  "work_of_group g = (case first_summary g of Inl e \<Rightarrow> Inl e | Inr w \<Rightarrow> work_entry w)"

fun collect_works :: "pyval list \<Rightarrow> py_exn + pyval list" where
  "collect_works [] = Inr []"
| "collect_works (g # gs) =
     (case work_of_group g of Inl e \<Rightarrow> Inl e | Inr w \<Rightarrow>
      case collect_works gs of Inl e \<Rightarrow> Inl e | Inr ws \<Rightarrow> Inr (w # ws))"

definition works_url :: "string \<Rightarrow> string" where
  "works_url orcid_id = ORCID_BASE @ ''/'' @ orcid_id @ ''/works''"

text \<open>\<open>get_works\<close> has no \<open>try\<close>: an exception of the request, of \<open>resp.json()\<close> or of the
  loop reaches the caller (\<open>Inl\<close>).\<close>

definition get_works :: "env \<Rightarrow> string \<Rightarrow> int \<Rightarrow> py_exn + pyval" where
  "get_works E orcid_id limit =
     (case requests_get E (works_url orcid_id) of Inl e \<Rightarrow> Inl e | Inr resp \<Rightarrow>
      if status_code resp \<noteq> 200
      then Inr (PDict [(''works'', PList []), (''error'', PStr (resp_text resp))])
      else
      case resp_json resp of Inl e \<Rightarrow> Inl e | Inr body \<Rightarrow>
      case dict_get body ''group'' (PList []) of Inl e \<Rightarrow> Inl e | Inr groups \<Rightarrow>
      case py_slice_iter groups limit of Inl e \<Rightarrow> Inl e | Inr gs \<Rightarrow>
      case collect_works gs of Inl e \<Rightarrow> Inl e | Inr works \<Rightarrow>
        Inr (PDict [(''works'', PList works)]))"

section \<open>Best-effort JSON extraction (\<open>app/utils/helpers.py\<close>)\<close>

text \<open>
  White space as Python's \<open>str\<close> regular expressions see it (\<open>\s\<close>): the code points
  for which \<open>str.isspace\<close> holds.
\<close>

definition is_uspace :: "nat \<Rightarrow> bool" where
  "is_uspace c =
     (c \<in> {9, 10, 11, 12, 13, 28, 29, 30, 31, 32, 133, 160, 5760, 8232, 8233, 8239, 8287,
            12288}
      \<or> (8192 \<le> c \<and> c \<le> 8202))"

text \<open>The characters the function looks for: the backquote of a fence, the word \<open>json\<close>,
  the opening and the closing brace.\<close>

definition fence :: utext where
  "fence = [96, 96, 96]"

definition json_word :: utext where
  "json_word = [106, 115, 111, 110]"

abbreviation open_brace :: nat where
  "open_brace \<equiv> 123"

abbreviation close_brace :: nat where
  "close_brace \<equiv> 125"

text \<open>
  \<open>re.search(r'```json\s*(\{.*?\})\s*```', text, re.DOTALL)\<close>, group 1. At a given start
  the pattern has one way to match: \<open>\s*\<close> must take the whole run of white space, since
  the next character of the pattern is not white space, and the lazy \<open>.*?\<close> stops at the
  first closing brace that is followed by white space and a fence. The search takes the
  leftmost start that matches.
\<close>

fun lazy_body :: "utext \<Rightarrow> utext option" where
  "lazy_body [] = None"
| "lazy_body (c # cs) =
     (if c = close_brace \<and> prefix fence (dropWhile is_uspace cs) then Some [c]
      else map_option ((#) c) (lazy_body cs))"

definition match_here :: "utext \<Rightarrow> utext option" where
  "match_here s =
     (if prefix (fence @ json_word) s
      then (case dropWhile is_uspace (drop 7 s) of
              [] \<Rightarrow> None
            | c # cs \<Rightarrow> if c = open_brace then map_option ((#) c) (lazy_body cs) else None)
      else None)"

fun re_search_json_block :: "utext \<Rightarrow> utext option" where
  "re_search_json_block [] = None"
| "re_search_json_block (c # cs) =
     (case match_here (c # cs) of
        Some g \<Rightarrow> Some g
      | None \<Rightarrow> re_search_json_block cs)"

text \<open>\<open>s.find(c)\<close>, \<open>s.rfind(c)\<close> (\<open>-1\<close> when absent) and the slice \<open>s[i:j]\<close>.\<close>

fun find_char :: "'a \<Rightarrow> 'a list \<Rightarrow> nat option" where
  "find_char c [] = None"
| "find_char c (x # xs) = (if x = c then Some 0 else map_option Suc (find_char c xs))"

definition py_find :: "'a list \<Rightarrow> 'a \<Rightarrow> int" where
  "py_find s c = (case find_char c s of None \<Rightarrow> - 1 | Some i \<Rightarrow> int i)"

definition py_rfind :: "'a list \<Rightarrow> 'a \<Rightarrow> int" where
  "py_rfind s c =
     (case find_char c (rev s) of None \<Rightarrow> - 1 | Some i \<Rightarrow> int (length s) - 1 - int i)"

definition slice_index :: "nat \<Rightarrow> int \<Rightarrow> nat" where
  "slice_index n i = (if i < 0 then nat (int n + i) else min (nat i) n)"

definition py_slice :: "'a list \<Rightarrow> int \<Rightarrow> int \<Rightarrow> 'a list" where
  "py_slice xs i j = drop (slice_index (length xs) i) (take (slice_index (length xs) j) xs)"

text \<open>The second attempt of the function: the text from the first opening brace to the
  last closing brace.\<close>

definition brace_substring :: "utext \<Rightarrow> utext option" where
  "brace_substring s =
     (let start = py_find s open_brace; end = py_rfind s close_brace + 1 in
      if start \<noteq> - 1 \<and> end \<noteq> 0 then Some (py_slice s start end) else None)"

text \<open>
  The two \<open>try\<close> blocks. Each catches \<open>json.JSONDecodeError\<close> only: any other exception of
  \<open>json.loads\<close> leaves the function. The first block gives \<open>None\<close> when the function goes
  on to the second attempt.
\<close>

definition fenced_attempt :: "env \<Rightarrow> utext \<Rightarrow> (py_exn + pyval) option" where
  "fenced_attempt E s =
     (case re_search_json_block s of
        None \<Rightarrow> None
      | Some g \<Rightarrow>
          (case json_loads E g of
             Inr v \<Rightarrow> Some (Inr v)
           | Inl e \<Rightarrow> if e = JSONDecodeError then None else Some (Inl e)))"

definition brace_attempt :: "env \<Rightarrow> utext \<Rightarrow> py_exn + pyval" where
  "brace_attempt E s =
     (case brace_substring s of
        None \<Rightarrow> Inr PNone
      | Some json_str \<Rightarrow>
          (case json_loads E json_str of
             Inr v \<Rightarrow> Inr v
           | Inl e \<Rightarrow> if e = JSONDecodeError then Inr PNone else Inl e))"

text \<open>\<open>extract_json_from_deepseek_response\<close> on its declared argument, a string or
  \<open>None\<close>.\<close>

definition extract_json_from_deepseek_response :: "env \<Rightarrow> utext option \<Rightarrow> py_exn + pyval" where
  "extract_json_from_deepseek_response E response_text =
     (case response_text of
        None \<Rightarrow> Inr PNone
      | Some s \<Rightarrow>
          if s = [] then Inr PNone
          else (case fenced_attempt E s of
                  Some outcome \<Rightarrow> outcome
                | None \<Rightarrow> brace_attempt E s))"

text \<open>
  The call sites pass an agent's \<open>final_output\<close>, which may be any value: a falsy value
  is answered \<open>None\<close> by the first test of the function, a string is searched, and
  \<open>re.search\<close> raises \<open>TypeError\<close> on anything else.
\<close>

definition extract_json_of_value :: "env \<Rightarrow> pyval \<Rightarrow> py_exn + pyval" where
  "extract_json_of_value E response_text =
     (case response_text of
        PNone \<Rightarrow> extract_json_from_deepseek_response E None
      | PStr s \<Rightarrow> extract_json_from_deepseek_response E (Some (text_of s))
      | _ \<Rightarrow> if \<not> truthy response_text then Inr PNone else Inl TypeError)"

section \<open>The search variants (\<open>app/routes/orcid.py\<close>)\<close>

text \<open>The list literal with its conditional entries, then the filter that drops the
  \<open>None\<close> entries. Both the batch task and the single-row endpoint build it this way.\<close>

definition search_variants :: "pyval \<Rightarrow> pyval \<Rightarrow> pyval \<Rightarrow> (string \<times> string) list" where
  "search_variants affiliation email country =
     map the (filter (\<lambda>v. v \<noteq> None)
       [Some (''name_only'', ''Searching by name only''),
        if truthy affiliation
        then Some (''name_affiliation'', ''Searching by name and affiliation'') else None,
        if truthy email then Some (''name_email'', ''Searching by name and email'') else None,
        if truthy country
        then Some (''name_country'', ''Searching by name and country'') else None,
        Some (''swapped'', ''Searching with swapped names'')])"

section \<open>Agents, serialisation and task bookkeeping\<close>

text \<open>
  \<open>Runner.run(agent, messages)\<close> asks a text-generation backend. Each agent is an oracle
  from the row number and the message content to an exception or the run's
  \<open>final_output\<close>; entering the agent's server context is part of the call.
\<close>

record agents =
  run_extract :: "nat \<Rightarrow> pyval \<Rightarrow> py_exn + pyval"
  run_search :: "nat \<Rightarrow> pyval \<Rightarrow> py_exn + pyval"
  run_picker :: "nat \<Rightarrow> pyval \<Rightarrow> py_exn + pyval"
  run_works :: "nat \<Rightarrow> pyval \<Rightarrow> py_exn + pyval"
  run_deepseek :: "nat \<Rightarrow> string \<Rightarrow> py_exn + pyval"

text \<open>A value is JSON when no pydantic object occurs in it.\<close>

primrec serialisable :: "pyval \<Rightarrow> bool" where
  "serialisable PNone = True"
| "serialisable (PBool b) = True"
| "serialisable (PInt i) = True"
| "serialisable (PFloat r) = True"
| "serialisable (PStr s) = True"
| "serialisable (PList xs) = list_all serialisable xs"
| "serialisable (PDict kvs) = list_all (pred_prod (\<lambda>k. True) serialisable) kvs"
| "serialisable (PObj attrs) = False"

text \<open>\<open>json.dumps(v)\<close> raises \<open>TypeError\<close> on an object; the text it returns is
  represented by the value it encodes.\<close>

definition json_dumps :: "pyval \<Rightarrow> py_exn + pyval" where
  "json_dumps v = (if serialisable v then Inr v else Inl TypeError)"

text \<open>\<open>obj.model_dump()\<close>: objects become dictionaries, recursively.\<close>

primrec model_dump :: "pyval \<Rightarrow> pyval" where
  "model_dump PNone = PNone"
| "model_dump (PBool b) = PBool b"
| "model_dump (PInt i) = PInt i"
| "model_dump (PFloat r) = PFloat r"
| "model_dump (PStr s) = PStr s"
| "model_dump (PList xs) = PList (map model_dump xs)"
| "model_dump (PDict kvs) = PDict (map (map_prod id model_dump) kvs)"
| "model_dump (PObj attrs) = PDict (map (map_prod id model_dump) attrs)"

fun safe_json_loads :: "env \<Rightarrow> pyval \<Rightarrow> pyval" where
  "safe_json_loads E PNone = PNone"
| "safe_json_loads E (PDict kvs) = PDict kvs"
| "safe_json_loads E (PList xs) = PList xs"
| "safe_json_loads E (PObj attrs) = model_dump (PObj attrs)"
| "safe_json_loads E (PStr s) =
     (case json_loads E (text_of s) of Inr v \<Rightarrow> v | Inl e \<Rightarrow> PStr s)"
| "safe_json_loads E x = x"

text \<open>\<open>hasattr(x, a)\<close>, \<open>x.a\<close>, \<open>x.a if hasattr(x, a) else None\<close> and \<open>x.a = v\<close>. None of
  the attribute names the code asks for exists on a built-in value.\<close>

fun obj_attr :: "pyval \<Rightarrow> string \<Rightarrow> pyval option" where
  "obj_attr (PObj attrs) a = map_of attrs a"
| "obj_attr x a = None"

definition has_attr :: "pyval \<Rightarrow> string \<Rightarrow> bool" where
  "has_attr x a = (obj_attr x a \<noteq> None)"

definition get_attr :: "pyval \<Rightarrow> string \<Rightarrow> py_exn + pyval" where
  "get_attr x a = (case obj_attr x a of Some v \<Rightarrow> Inr v | None \<Rightarrow> Inl AttributeError)"

definition attr_or_none :: "pyval \<Rightarrow> string \<Rightarrow> pyval" where
  "attr_or_none x a = (case obj_attr x a of Some v \<Rightarrow> v | None \<Rightarrow> PNone)"

fun update_attr :: "string \<Rightarrow> pyval \<Rightarrow> (string \<times> pyval) list \<Rightarrow> (string \<times> pyval) list" where
  "update_attr a v [] = [(a, v)]"
| "update_attr a v (kv # kvs) =
     (if fst kv = a then (a, v) # kvs else kv # update_attr a v kvs)"

fun set_attr :: "pyval \<Rightarrow> string \<Rightarrow> pyval \<Rightarrow> pyval" where
  "set_attr (PObj attrs) a v = PObj (update_attr a v attrs)"
| "set_attr x a v = x"

text \<open>The in-memory task registry of \<open>helpers.py\<close> (time stamps and progress details left
  out) and \<open>update_task_status\<close>, which changes nothing for an unknown task.\<close>

record task_status =
  t_status :: string
  t_result :: "pyval option"
  t_error :: "string option"

type_synonym task_store = "string \<rightharpoonup> task_status"

definition update_task_status ::
  "task_store \<Rightarrow> string \<Rightarrow> string \<Rightarrow> pyval option \<Rightarrow> string option \<Rightarrow> task_store" where
  "update_task_status ts task_id st res err =
     (case ts task_id of
        None \<Rightarrow> ts
      | Some t \<Rightarrow>
          ts(task_id \<mapsto> t\<lparr>t_status := st,
                           t_result := (case res of None \<Rightarrow> t_result t | Some r \<Rightarrow> Some r),
                           t_error := (case err of None \<Rightarrow> t_error t | Some m \<Rightarrow> Some m)\<rparr>))"

text \<open>What one pass of a row loop does: \<open>continue\<close> without a record, append a record, or
  let an exception leave the loop.\<close>

datatype row_outcome = Skip | Append pyval | Abort py_exn

text \<open>\<open>rows = response["result"]\<close> when the response is a dictionary with that key, the
  response itself otherwise; \<open>len(rows)\<close>.\<close>

definition rows_of_response :: "pyval \<Rightarrow> pyval" where
  "rows_of_response resp =
     (case resp of
        PDict kvs \<Rightarrow> (case map_of kvs ''result'' of Some r \<Rightarrow> r | None \<Rightarrow> resp)
      | _ \<Rightarrow> resp)"

fun py_len :: "pyval \<Rightarrow> py_exn + nat" where
  "py_len (PList xs) = Inr (length xs)"
| "py_len (PDict kvs) = Inr (length kvs)"
| "py_len (PStr s) = Inr (length s)"
| "py_len v = Inl TypeError"

section \<open>The multi-agent batch run (\<open>search_orcid_from_table\<close>, \<open>table_search_task\<close>)\<close>

text \<open>The identity extracted from a row: the local variables \<open>first_name\<close>, \<open>last_name\<close>,
  \<open>email\<close>, \<open>affiliation\<close>, \<open>country\<close>.\<close>

record draft =
  d_first_name :: pyval
  d_last_name :: pyval
  d_email :: pyval
  d_affiliation :: pyval
  d_country :: pyval

definition key_or_none :: "(string \<times> pyval) list \<Rightarrow> string \<Rightarrow> pyval" where
  "key_or_none kvs k = (case map_of kvs k of Some v \<Rightarrow> v | None \<Rightarrow> PNone)"

text \<open>Reading the extract agent's output: a string is parsed and must give a dictionary
  (\<open>None\<close> here is the \<open>continue\<close> of the batch loop); anything else is read by attribute.\<close>

definition parse_extract_result :: "env \<Rightarrow> pyval \<Rightarrow> draft option" where
  "parse_extract_result E extract_result =
     (if is_str extract_result
      then (case safe_json_loads E extract_result of
              PDict kvs \<Rightarrow>
                Some \<lparr>d_first_name = key_or_none kvs ''firstname'',
                      d_last_name = key_or_none kvs ''lastname'',
                      d_email = key_or_none kvs ''email'',
                      d_affiliation = key_or_none kvs ''affiliation'',
                      d_country = key_or_none kvs ''country''\<rparr>
            | _ \<Rightarrow> None)
      else Some \<lparr>d_first_name = attr_or_none extract_result ''firstname'',
                 d_last_name = attr_or_none extract_result ''lastname'',
                 d_email = attr_or_none extract_result ''email'',
                 d_affiliation = attr_or_none extract_result ''affiliation'',
                 d_country = attr_or_none extract_result ''country''\<rparr>)"

definition wanted_fields :: "draft \<Rightarrow> (string \<times> pyval) list" where
  "wanted_fields d =
     [(''first_name'', d_first_name d), (''last_name'', d_last_name d),
      (''email'', d_email d), (''affiliation'', d_affiliation d),
      (''country'', d_country d)]"

definition search_payload :: "draft \<Rightarrow> string \<Rightarrow> pyval" where
  "search_payload d variant = PDict (wanted_fields d @ [(''variant'', PStr variant)])"

text \<open>One pass of the variant loop of the batch task: the result set appended to
  \<open>search_results\<close>, if any. Every exception is caught inside the loop.\<close>

definition search_one :: "agents \<Rightarrow> env \<Rightarrow> nat \<Rightarrow> draft \<Rightarrow> string \<Rightarrow> pyval option" where
  "search_one A E idx d variant =
     (case json_dumps (search_payload d variant) of
        Inl e \<Rightarrow> None
      | Inr content \<Rightarrow>
          (case run_search A idx content of
             Inl e \<Rightarrow> None
           | Inr final_output \<Rightarrow>
               if is_str final_output
               then (let parsed_result = safe_json_loads E final_output in
                     if is_dict parsed_result then Some parsed_result else None)
               else Some final_output))"

definition variant_names :: "draft \<Rightarrow> string list" where
  "variant_names d = map fst (search_variants (d_affiliation d) (d_email d) (d_country d))"

definition run_search_variants :: "agents \<Rightarrow> env \<Rightarrow> nat \<Rightarrow> draft \<Rightarrow> pyval list" where
  "run_search_variants A E idx d = List.map_filter (search_one A E idx d) (variant_names d)"

definition picker_payload :: "draft \<Rightarrow> pyval list \<Rightarrow> pyval" where
  "picker_payload d search_results =
     PDict [(''wanted_researcher'', PDict (wanted_fields d)),
            (''results'', PList search_results)]"

text \<open>Step 3: the picker agent chooses. \<open>None\<close> is every way the step ends without a
  \<open>best_result\<close>: an exception of the call or of \<open>json.dumps\<close>, or an output without a
  \<open>result\<close>.\<close>

definition pick_best :: "agents \<Rightarrow> env \<Rightarrow> nat \<Rightarrow> draft \<Rightarrow> pyval list \<Rightarrow> pyval option" where
  "pick_best A E idx d search_results =
     (case json_dumps (picker_payload d search_results) of
        Inl e \<Rightarrow> None
      | Inr content \<Rightarrow>
          (case run_picker A idx content of
             Inl e \<Rightarrow> None
           | Inr final_output \<Rightarrow>
               if is_str final_output
               then (case safe_json_loads E final_output of
                       PDict kvs \<Rightarrow> map_of kvs ''result''
                     | _ \<Rightarrow> None)
               else obj_attr final_output ''result''))"

text \<open>Step 4: the works agent adds the two research-area fields to \<open>best_result\<close>; any
  exception leaves \<open>best_result\<close> as it was.\<close>

definition works_payload :: "pyval \<Rightarrow> py_exn + pyval" where
  "works_payload best_result =
     (case get_attr best_result ''orcid_id'' of Inl e \<Rightarrow> Inl e | Inr a1 \<Rightarrow>
     (case get_attr best_result ''first_name'' of Inl e \<Rightarrow> Inl e | Inr a2 \<Rightarrow>
     (case get_attr best_result ''last_name'' of Inl e \<Rightarrow> Inl e | Inr a3 \<Rightarrow>
     (case get_attr best_result ''email'' of Inl e \<Rightarrow> Inl e | Inr a4 \<Rightarrow>
     (case get_attr best_result ''country'' of Inl e \<Rightarrow> Inl e | Inr a5 \<Rightarrow>
     (case get_attr best_result ''affiliation'' of Inl e \<Rightarrow> Inl e | Inr a6 \<Rightarrow>
        json_dumps (PDict [(''orcid_id'', a1), (''first_name'', a2), (''last_name'', a3),
                           (''email'', a4), (''country'', a5), (''affiliation'', a6)])))))))"

definition set_if_some :: "pyval \<Rightarrow> string \<Rightarrow> pyval option \<Rightarrow> pyval" where
  "set_if_some x a v = (case v of None \<Rightarrow> x | Some w \<Rightarrow> set_attr x a w)"

definition apply_works :: "env \<Rightarrow> pyval \<Rightarrow> pyval \<Rightarrow> pyval" where
  "apply_works E best_result works_output =
     (if is_str works_output
      then (case safe_json_loads E works_output of
              PDict kvs \<Rightarrow>
                set_if_some
                  (set_if_some best_result ''main_research_area''
                     (map_of kvs ''main_research_area''))
                  ''specific_research_area'' (map_of kvs ''specific_research_area'')
            | _ \<Rightarrow> best_result)
      else set_if_some
             (set_if_some best_result ''main_research_area''
                (obj_attr works_output ''main_research_area''))
             ''specific_research_area'' (obj_attr works_output ''specific_research_area''))"

definition extract_works :: "agents \<Rightarrow> env \<Rightarrow> nat \<Rightarrow> pyval \<Rightarrow> pyval" where
  "extract_works A E idx best_result =
     (if truthy best_result \<and> has_attr best_result ''orcid_id''
         \<and> truthy (attr_or_none best_result ''orcid_id'')
      then (case works_payload best_result of
              Inl e \<Rightarrow> best_result
            | Inr content \<Rightarrow>
                (case run_works A idx content of
                   Inl e \<Rightarrow> best_result
                 | Inr works_output \<Rightarrow> apply_works E best_result works_output))
      else best_result)"

definition result_dict :: "pyval \<Rightarrow> pyval \<Rightarrow> pyval" where
  "result_dict best_result row =
     PDict [(''orcid_id'', attr_or_none best_result ''orcid_id''),
            (''first_name'', attr_or_none best_result ''first_name''),
            (''last_name'', attr_or_none best_result ''last_name''),
            (''email'', attr_or_none best_result ''email''),
            (''country'', attr_or_none best_result ''country''),
            (''affiliation'', attr_or_none best_result ''affiliation''),
            (''main_research_area'', attr_or_none best_result ''main_research_area''),
            (''specific_research_area'',
               attr_or_none best_result ''specific_research_area''),
            (''original_data'', row)]"

text \<open>The body of \<open>for idx, row in enumerate(rows, 1)\<close>. The extract call is outside every
  inner \<open>try\<close>, so its exception ends the task.\<close>

definition process_row :: "agents \<Rightarrow> env \<Rightarrow> nat \<Rightarrow> pyval \<Rightarrow> row_outcome" where
  "process_row A E idx row =
     (if \<not> is_dict row then Skip
      else case json_dumps row of
        Inl e \<Rightarrow> Abort e
      | Inr extract_prompt \<Rightarrow>
          (case run_extract A idx extract_prompt of
             Inl e \<Rightarrow> Abort e
           | Inr extract_result \<Rightarrow>
               (case parse_extract_result E extract_result of
                  None \<Rightarrow> Skip
                | Some d \<Rightarrow>
                    if \<not> truthy (d_first_name d) \<or> \<not> truthy (d_last_name d) then Skip
                    else let search_results = run_search_variants A E idx d in
                      if search_results = [] then Skip
                      else (case pick_best A E idx d search_results of
                              None \<Rightarrow> Skip
                            | Some best_result \<Rightarrow>
                                Append (result_dict (extract_works A E idx best_result)
                                          row)))))"

text \<open>A row loop: records are appended in row order, a skipped row leaves nothing, the
  first exception that leaves a row ends the loop.\<close>

fun run_rows :: "(nat \<Rightarrow> pyval \<Rightarrow> row_outcome) \<Rightarrow> nat \<Rightarrow> pyval list \<Rightarrow> py_exn + pyval list" where
  "run_rows f idx [] = Inr []"
| "run_rows f idx (row # rows) =
     (case f idx row of
        Abort e \<Rightarrow> Inl e
      | Skip \<Rightarrow> run_rows f (Suc idx) rows
      | Append r \<Rightarrow>
          (case run_rows f (Suc idx) rows of
             Inl e \<Rightarrow> Inl e
           | Inr rs \<Rightarrow> Inr (r # rs)))"

text \<open>
  \<open>table_search_task\<close> from the point where the table has been queried. \<open>queried\<close> is the
  outcome of everything before the loop (database and key checks, agent set-up, the
  query): an exception or the response. The task returns the registry and the exception
  it re-raises, if any.
\<close>

definition task_failed :: "env \<Rightarrow> task_store \<Rightarrow> string \<Rightarrow> py_exn \<Rightarrow> task_store \<times> py_exn option" where
  "task_failed E ts task_id e =
     (update_task_status ts task_id ''failed'' None (Some (exn_str E e)), Some e)"

definition table_search_task ::
  "agents \<Rightarrow> env \<Rightarrow> string \<Rightarrow> task_store \<Rightarrow> string \<Rightarrow> py_exn + pyval \<Rightarrow> task_store \<times> py_exn option" where
  "table_search_task A E model_name ts0 task_id queried =
     (let ts = update_task_status ts0 task_id ''running'' None None in
      case queried of
        Inl e \<Rightarrow> task_failed E ts task_id e
      | Inr resp \<Rightarrow>
          (case py_len (rows_of_response resp) of
             Inl e \<Rightarrow> task_failed E ts task_id e
           | Inr n \<Rightarrow>
               (case py_iter (rows_of_response resp) of
                  Inl e \<Rightarrow> task_failed E ts task_id e
                | Inr rows \<Rightarrow>
                    (case run_rows (process_row A E) 1 rows of
                       Inl e \<Rightarrow> task_failed E ts task_id e
                     | Inr all_results \<Rightarrow>
                         (update_task_status ts task_id ''completed''
                            (Some (PDict [(''results'', PList all_results),
                                          (''total_processed'', PInt (int n)),
                                          (''successful_matches'',
                                             PInt (int (length all_results))),
                                          (''model_used'', PStr model_name)]))
                            None,
                          None)))))"

section \<open>The DeepSeek batch run (\<open>search_orcid_from_table_deepseek\<close>, \<open>table_search_task\<close>)\<close>

text \<open>
  The pydantic models of \<open>app/models/orcid.py\<close>. A field declared \<open>Optional[str]\<close> takes a
  string or \<open>None\<close>, \<open>confidence\<close> lies between 0 and 1, \<open>original_data\<close> is a dictionary
  or \<open>None\<close>; anything else is a \<open>ValidationError\<close>. The string fields are given in the
  order of the class.
\<close>

definition optional_str :: "pyval \<Rightarrow> bool" where
  "optional_str v = (v = PNone \<or> is_str v)"

definition OrcidSearchResult :: "(string \<times> pyval) list \<Rightarrow> rat \<Rightarrow> pyval \<Rightarrow> py_exn + pyval" where
  "OrcidSearchResult str_fields confidence original_data =
     (if list_all (\<lambda>kv. optional_str (snd kv)) str_fields
         \<and> 0 \<le> confidence \<and> confidence \<le> 1
         \<and> (original_data = PNone \<or> is_dict original_data)
      then Inr (PObj (str_fields @ [(''confidence'', PFloat confidence),
                                    (''original_data'', original_data)]))
      else Inl ValidationError)"


text \<open>\<open>d.get(k, default)\<close> and \<open>d.get(k, d.get(k2, ''))\<close> on the items of a dictionary.\<close>

definition get_or :: "(string \<times> pyval) list \<Rightarrow> string \<Rightarrow> pyval \<Rightarrow> pyval" where
  "get_or kvs k d = (case map_of kvs k of Some v \<Rightarrow> v | None \<Rightarrow> d)"

definition get_or2 :: "(string \<times> pyval) list \<Rightarrow> string \<Rightarrow> string \<Rightarrow> pyval" where
  "get_or2 kvs k k2 = get_or kvs k (get_or kvs k2 (PStr []))"

text \<open>\<open>k in v\<close> for a string \<open>k\<close>: a key of a dictionary, an element of a list, a substring
  of a string.\<close>

fun is_substring :: "string \<Rightarrow> string \<Rightarrow> bool" where
  "is_substring p [] = (p = [])"
| "is_substring p (c # cs) = (prefix p (c # cs) \<or> is_substring p cs)"

fun py_contains :: "string \<Rightarrow> pyval \<Rightarrow> py_exn + bool" where
  "py_contains k (PDict kvs) = Inr (map_of kvs k \<noteq> None)"
| "py_contains k (PList xs) = Inr (PStr k \<in> set xs)"
| "py_contains k (PStr s) = Inr (is_substring k s)"
| "py_contains k v = Inl TypeError"

text \<open>The test \<open>researchers_data and 'researchers' in researchers_data and
  researchers_data['researchers']\<close>.\<close>

definition has_researchers :: "pyval \<Rightarrow> py_exn + bool" where
  "has_researchers researchers_data =
     (if \<not> truthy researchers_data then Inr False
      else case py_contains ''researchers'' researchers_data of
        Inl e \<Rightarrow> Inl e
      | Inr b \<Rightarrow>
          if \<not> b then Inr False
          else (case py_getitem researchers_data ''researchers'' of
                  Inl e \<Rightarrow> Inl e
                | Inr v \<Rightarrow> Inr (truthy v)))"

definition found_result :: "pyval \<Rightarrow> pyval \<Rightarrow> py_exn + pyval" where
  "found_result researcher row =
     (case researcher of
        PDict kvs \<Rightarrow>
          OrcidSearchResult
            [(''orcid_id'', get_or kvs ''orcid'' (PStr [])),
             (''first_name'', get_or kvs ''given_names'' (PStr [])),
             (''last_name'', get_or kvs ''family_names'' (PStr [])),
             (''email'', get_or kvs ''email'' (PStr [])),
             (''country'', get_or kvs ''country'' (PStr [])),
             (''affiliation'', get_or kvs ''affiliation'' (PStr [])),
             (''main_research_area'', get_or kvs ''main_research_area'' (PStr [])),
             (''specific_research_area'', get_or kvs ''specific_research_area'' (PStr [])),
             (''reasoning'', PStr ''ORCID found using DeepSeek agent'')]
            (8 / 10) row
      | _ \<Rightarrow> Inl AttributeError)"

text \<open>The record written when nothing was found and when the row raised: the identity
  fields are read from the row, the two research areas are \<open>None\<close>.\<close>

definition fallback_fields :: "(string \<times> pyval) list \<Rightarrow> (string \<times> pyval) list" where
  "fallback_fields kvs =
     [(''orcid_id'', PStr []),
      (''first_name'', get_or2 kvs ''first_name'' ''prenom''),
      (''last_name'', get_or2 kvs ''last_name'' ''nom''),
      (''email'', get_or kvs ''email'' (PStr [])),
      (''country'', get_or kvs ''country'' (PStr [])),
      (''affiliation'', get_or2 kvs ''affiliation'' ''institution''),
      (''main_research_area'', PNone),
      (''specific_research_area'', PNone)]"

definition not_found_result :: "(string \<times> pyval) list \<Rightarrow> py_exn + pyval" where
  "not_found_result kvs =
     OrcidSearchResult
       (fallback_fields kvs
          @ [(''reasoning'', PStr ''No ORCID profile found using DeepSeek agent'')])
       0 (PDict kvs)"

definition error_result :: "env \<Rightarrow> (string \<times> pyval) list \<Rightarrow> py_exn \<Rightarrow> py_exn + pyval" where
  "error_result E kvs e =
     OrcidSearchResult
       (fallback_fields kvs @ [(''reasoning'', PStr (''Error processing: '' @ exn_str E e))])
       0 (PDict kvs)"

text \<open>The row rendered for the agent: \<open>key: value\<close> for every value that is not \<open>None\<close>
  and not blank.\<close>

definition row_data_str :: "env \<Rightarrow> (string \<times> pyval) list \<Rightarrow> string" where
  "row_data_str E kvs =
     join '', ''
       (map (\<lambda>kv. fst kv @ '': '' @ py_str E (snd kv))
          (filter (\<lambda>kv. snd kv \<noteq> PNone \<and> strip (py_str E (snd kv)) \<noteq> []) kvs))"

text \<open>The \<open>try\<close> block of one row.\<close>

definition deepseek_try :: "agents \<Rightarrow> env \<Rightarrow> nat \<Rightarrow> (string \<times> pyval) list \<Rightarrow> py_exn + pyval" where
  "deepseek_try A E idx kvs =
     (case run_deepseek A idx (''Search for this researcher: '' @ row_data_str E kvs) of
        Inl e \<Rightarrow> Inl e
      | Inr final_output \<Rightarrow>
          (case extract_json_of_value E final_output of
             Inl e \<Rightarrow> Inl e
           | Inr researchers_data \<Rightarrow>
               (case has_researchers researchers_data of
                  Inl e \<Rightarrow> Inl e
                | Inr b \<Rightarrow>
                    if b
                    then (case py_getitem researchers_data ''researchers'' of
                            Inl e \<Rightarrow> Inl e
                          | Inr rs \<Rightarrow>
                              (case py_first rs of
                                 Inl e \<Rightarrow> Inl e
                               | Inr researcher \<Rightarrow> found_result researcher (PDict kvs)))
                    else not_found_result kvs)))"

text \<open>One pass of the loop: the \<open>except\<close> branch builds the error record outside any
  \<open>try\<close>, so a \<open>ValidationError\<close> there leaves the loop.\<close>

definition deepseek_row :: "agents \<Rightarrow> env \<Rightarrow> nat \<Rightarrow> pyval \<Rightarrow> row_outcome" where
  "deepseek_row A E idx row =
     (case row of
        PDict kvs \<Rightarrow>
          (case deepseek_try A E idx kvs of
             Inr result_obj \<Rightarrow> Append result_obj
           | Inl e \<Rightarrow>
               (case error_result E kvs e of
                  Inr result_obj \<Rightarrow> Append result_obj
                | Inl e2 \<Rightarrow> Abort e2))
      | _ \<Rightarrow> Skip)"



section \<open>The single-row multi-agent search (\<open>search_orcid_from_table_person_multiagent\<close>)\<close>







section \<open>Sample environments\<close>

text \<open>Concrete library behaviour for the worked examples: \<open>str()\<close> is the identity on
  strings, every request gets the same answer, and \<open>json.loads\<close> is given.\<close>

definition sample_env :: "(utext \<Rightarrow> py_exn + pyval) \<Rightarrow> (py_exn + response) \<Rightarrow> env" where
  "sample_env loads answer =
     \<lparr>py_str = the_str, exn_str = (\<lambda>e. ''error''), json_loads = loads,
      requests_get = (\<lambda>url. answer)\<rparr>"

definition no_json :: "utext \<Rightarrow> py_exn + pyval" where
  "no_json t = Inl JSONDecodeError"

definition not_found_response :: response where
  "not_found_response =
     \<lparr>status_code = 404, resp_text = ''Not Found'', resp_json = Inl JSONDecodeError\<rparr>"

text \<open>A works answer with two groups, and the entry expected for a group.\<close>

definition sample_summary :: "int \<Rightarrow> pyval" where
  "sample_summary n =
     PDict [(''put-code'', PInt n),
            (''title'', PDict [(''title'', PDict [(''value'', PStr ''A title'')])]),
            (''publication-date'', PDict [(''year'', PDict [(''value'', PStr ''2020'')])])]"

definition sample_group :: "int \<Rightarrow> pyval" where
  "sample_group n = PDict [(''work-summary'', PList [sample_summary n])]"

definition sample_entry :: "int \<Rightarrow> pyval" where
  "sample_entry n =
     PDict [(''put_code'', PInt n), (''title'', PStr ''A title''), (''year'', PStr ''2020'')]"

definition works_response :: response where
  "works_response =
     \<lparr>status_code = 200, resp_text = [],
      resp_json = Inr (PDict [(''group'', PList [sample_group 1, sample_group 2])])\<rparr>"

text \<open>A \<open>json.loads\<close> that accepts the empty object only, and three answers: one with a
  fenced block, one with bare braces, one without JSON.\<close>

definition braces_only :: "utext \<Rightarrow> py_exn + pyval" where
  "braces_only t = (if t = text_of ''{}'' then Inr (PDict []) else Inl JSONDecodeError)"

definition fenced_answer :: utext where
  "fenced_answer =
     text_of ''Here is the result: '' @ fence @ json_word @ text_of '' {} '' @ fence
     @ text_of '' Done.''"

definition brace_answer :: utext where
  "brace_answer = text_of ''Result: {} ok''"

definition plain_answer :: utext where
  "plain_answer = text_of ''No researcher could be found.''"

text \<open>An object whose only member is an integer of 4301 digits, and a \<open>json.loads\<close> that
  raises \<open>ValueError\<close> on it, as CPython's does.\<close>

definition huge_number_text :: utext where
  "huge_number_text = [open_brace, 34, 110, 34, 58, 32] @ replicate 4301 57 @ [close_brace]"

definition digit_limit_loads :: "utext \<Rightarrow> py_exn + pyval" where
  "digit_limit_loads t =
     (if t = huge_number_text then Inl ValueError
      else if t = text_of ''{}'' then Inr (PDict []) else Inl JSONDecodeError)"

text \<open>A table row, a registry with one pending task, agents that find nothing (the
  extract agent reports no name, the DeepSeek agent answers without JSON), agents that
  find a profile, and the records these runs are expected to give.\<close>

definition sample_row :: pyval where
  "sample_row = PDict [(''prenom'', PStr ''Marie''), (''nom'', PStr ''Curie'')]"

definition sample_store :: task_store where
  "sample_store =
     [''task-1'' \<mapsto> \<lparr>t_status = ''pending'', t_result = None, t_error = None\<rparr>]"

definition nameless_agents :: agents where
  "nameless_agents =
     \<lparr>run_extract = (\<lambda>i c. Inr (PObj [(''firstname'', PNone), (''lastname'', PNone),
                                       (''email'', PNone), (''affiliation'', PNone),
                                       (''country'', PNone), (''orcid_id'', PNone)])),
      run_search = (\<lambda>i c. Inl RuntimeError),
      run_picker = (\<lambda>i c. Inl RuntimeError),
      run_works = (\<lambda>i c. Inl RuntimeError),
      run_deepseek = (\<lambda>i p. Inr (PStr ''No researcher could be found.''))\<rparr>"

definition offline_env :: env where
  "offline_env = sample_env no_json (Inl RequestException)"

definition picked_profile :: pyval where
  "picked_profile =
     PObj [(''orcid_id'', PStr ''0000-0001-2345-6789''), (''first_name'', PStr ''Marie''),
           (''last_name'', PStr ''Curie''), (''email'', PNone), (''country'', PStr ''FR''),
           (''affiliation'', PStr ''Sorbonne''), (''main_research_area'', PNone),
           (''specific_research_area'', PNone)]"

definition matching_agents :: agents where
  "matching_agents =
     \<lparr>run_extract = (\<lambda>i c. Inr (PObj [(''firstname'', PStr ''Marie''),
                                       (''lastname'', PStr ''Curie''),
                                       (''email'', PNone), (''affiliation'', PNone),
                                       (''country'', PNone), (''orcid_id'', PNone)])),
      run_search = (\<lambda>i c. Inr (PDict [(''researchers'', PList []),
                                      (''total_found'', PInt 0)])),
      run_picker = (\<lambda>i c. Inr (PObj [(''result'', picked_profile)])),
      run_works = (\<lambda>i c. Inr (PObj [(''main_research_area'', PStr ''Physics''),
                                    (''specific_research_area'', PStr ''Radioactivity'')])),
      run_deepseek = (\<lambda>i p. Inl RuntimeError)\<rparr>"

definition not_found_record :: pyval where
  "not_found_record =
     PObj [(''orcid_id'', PStr []), (''first_name'', PStr ''Marie''),
           (''last_name'', PStr ''Curie''), (''email'', PStr []), (''country'', PStr []),
           (''affiliation'', PStr []), (''main_research_area'', PNone),
           (''specific_research_area'', PNone),
           (''reasoning'', PStr ''No ORCID profile found using DeepSeek agent''),
           (''confidence'', PFloat 0), (''original_data'', sample_row)]"


definition matched_record :: pyval where
  "matched_record =
     PDict [(''orcid_id'', PStr ''0000-0001-2345-6789''),
            (''first_name'', PStr ''Marie''), (''last_name'', PStr ''Curie''),
            (''email'', PNone), (''country'', PStr ''FR''),
            (''affiliation'', PStr ''Sorbonne''),
            (''main_research_area'', PStr ''Physics''),
            (''specific_research_area'', PStr ''Radioactivity''),
            (''original_data'', sample_row)]"





section \<open>Properties of the directory client\<close>

text \<open>
  C4. When the remote answer of a directory search has a status other than 200, or when
  any exception is raised inside the search, \<open>search_orcid_researchers\<close> returns a
  dictionary whose \<open>researchers\<close> list is empty and whose \<open>total_found\<close> is 0. The function
  itself is total: it has no way to raise.
\<close>

theorem search_failure_gives_empty_result:
  assumes "(\<exists>resp. requests_get E (search_url keywords) = Inr resp \<and> status_code resp \<noteq> 200)
           \<or> (\<exists>e. search_body E keywords limit = Inl e)"
  shows "py_field (search_orcid_researchers E keywords limit institution) ''researchers''
           = Some (PList [])
         \<and> py_field (search_orcid_researchers E keywords limit institution) ''total_found''
           = Some (PInt 0)"
  using assms
  by (auto simp: search_orcid_researchers_def search_body_def)

theorem search_failure_gives_empty_result_witness:
  "requests_get (sample_env no_json (Inr not_found_response)) (search_url ''Marie, Curie'')
     = Inr not_found_response
   \<and> status_code not_found_response \<noteq> 200
   \<and> py_field (search_orcid_researchers (sample_env no_json (Inr not_found_response))
                 ''Marie, Curie'' (Some 5) None) ''researchers'' = Some (PList [])
   \<and> py_field (search_orcid_researchers (sample_env no_json (Inr not_found_response))
                 ''Marie, Curie'' (Some 5) None) ''total_found'' = Some (PInt 0)"
proof -
  have h: "requests_get (sample_env no_json (Inr not_found_response))
             (search_url ''Marie, Curie'') = Inr not_found_response
           \<and> status_code not_found_response \<noteq> 200"
    by (simp add: sample_env_def not_found_response_def)
  then have "(\<exists>resp. requests_get (sample_env no_json (Inr not_found_response))
                 (search_url ''Marie, Curie'') = Inr resp \<and> status_code resp \<noteq> 200)
             \<or> (\<exists>e. search_body (sample_env no_json (Inr not_found_response))
                      ''Marie, Curie'' (Some 5) = Inl e)"
    by blast
  from search_failure_gives_empty_result [OF this, of None] h show ?thesis
    by simp
qed

text \<open>
  C9. Two searches that differ only in the \<open>institution\<close> argument return the same
  dictionary, hence the same \<open>researchers\<close> list and the same \<open>total_found\<close>: the query is
  built from the keywords alone and the argument is never read.
\<close>

theorem institution_is_ignored:
  "search_orcid_researchers E keywords limit institution1
     = search_orcid_researchers E keywords limit institution2"
  by (simp add: search_orcid_researchers_def)

section \<open>Properties of the search variants\<close>

text \<open>
  C3. The planned variants are, in this order: \<open>name_only\<close>; \<open>name_affiliation\<close> exactly
  when the affiliation is present (truthy); \<open>name_email\<close> exactly when the email is
  present; \<open>name_country\<close> exactly when the country is present; the swapped-names variant
  (tagged \<open>swapped\<close>). The list is built only for a draft with both names.
\<close>

theorem search_variants_order:
  "map fst (search_variants affiliation email country) =
     [''name_only'']
     @ (if truthy affiliation then [''name_affiliation''] else [])
     @ (if truthy email then [''name_email''] else [])
     @ (if truthy country then [''name_country''] else [])
     @ [''swapped'']"
  by (simp add: search_variants_def)

section \<open>Properties of the works listing\<close>

lemma collect_works_all2:
  "collect_works gs = Inr ws \<Longrightarrow> list_all2 (\<lambda>g entry. work_of_group g = Inr entry) gs ws"
  by (induction gs arbitrary: ws) (auto split: sum.splits)

lemma py_slice_to_length: "0 \<le> n \<Longrightarrow> length (py_slice_to n xs) \<le> nat n"
  by (simp add: py_slice_to_def)

lemma py_slice_iter_length:
  "0 \<le> n \<Longrightarrow> py_slice_iter groups n = Inr gs \<Longrightarrow> length gs \<le> nat n"
  by (cases groups) (auto simp: py_slice_to_length)

lemma work_of_group_entry:
  assumes "work_of_group g = Inr entry"
  shows "\<exists>w put_code title year.
           first_summary g = Inr w
           \<and> py_getitem w ''put-code'' = Inr put_code
           \<and> nested_value w ''title'' ''title'' = Inr title
           \<and> nested_value w ''publication-date'' ''year'' = Inr year
           \<and> entry = PDict [(''put_code'', put_code), (''title'', title), (''year'', year)]"
  using assms
  by (auto simp: work_of_group_def work_entry_def split: sum.splits)

text \<open>
  C8 (amended). For a successful works fetch (status 200, no exception) with a limit that
  is not negative, the result holds a \<open>works\<close> list of at most \<open>limit\<close> entries, one for
  each of the first groups of the response in order, and each entry carries the
  \<open>put_code\<close>, the \<open>title\<close> and the \<open>year\<close> read from the first work-summary of its group.
\<close>

theorem get_works_entries:
  assumes "requests_get E (works_url orcid_id) = Inr resp"
    and "status_code resp = 200"
    and "get_works E orcid_id limit = Inr r"
    and "0 \<le> limit"
  shows "\<exists>body groups gs works.
           resp_json resp = Inr body
           \<and> dict_get body ''group'' (PList []) = Inr groups
           \<and> py_slice_iter groups limit = Inr gs
           \<and> r = PDict [(''works'', PList works)]
           \<and> int (length works) \<le> limit
           \<and> list_all2
               (\<lambda>g entry. \<exists>w put_code title year.
                   first_summary g = Inr w
                   \<and> py_getitem w ''put-code'' = Inr put_code
                   \<and> nested_value w ''title'' ''title'' = Inr title
                   \<and> nested_value w ''publication-date'' ''year'' = Inr year
                   \<and> entry = PDict [(''put_code'', put_code), (''title'', title),
                                     (''year'', year)])
               gs works"
proof -
  from assms(1-3) obtain body groups gs works where
    b: "resp_json resp = Inr body" and g: "dict_get body ''group'' (PList []) = Inr groups"
    and s: "py_slice_iter groups limit = Inr gs" and c: "collect_works gs = Inr works"
    and r: "r = PDict [(''works'', PList works)]"
    by (auto simp: get_works_def split: sum.splits)
  from c have a: "list_all2 (\<lambda>g entry. work_of_group g = Inr entry) gs works"
    by (rule collect_works_all2)
  then have "length works = length gs" by (simp add: list_all2_lengthD)
  with py_slice_iter_length [OF assms(4) s] assms(4) have "int (length works) \<le> limit"
    by simp
  moreover from a have "list_all2
               (\<lambda>g entry. \<exists>w put_code title year.
                   first_summary g = Inr w
                   \<and> py_getitem w ''put-code'' = Inr put_code
                   \<and> nested_value w ''title'' ''title'' = Inr title
                   \<and> nested_value w ''publication-date'' ''year'' = Inr year
                   \<and> entry = PDict [(''put_code'', put_code), (''title'', title),
                                     (''year'', year)])
               gs works"
    by (rule list_all2_mono) (auto dest: work_of_group_entry)
  ultimately show ?thesis using b g s r by blast
qed

lemma sample_get_works:
  "get_works (sample_env no_json (Inr works_response)) ''0000-0001-2345-6789'' 1
     = Inr (PDict [(''works'', PList [sample_entry 1])])"
  by (simp add: get_works_def sample_env_def works_response_def py_slice_to_def
        work_of_group_def first_summary_def work_entry_def nested_value_def
        sample_group_def sample_summary_def sample_entry_def)

theorem get_works_entries_witness:
  "requests_get (sample_env no_json (Inr works_response)) (works_url ''0000-0001-2345-6789'')
     = Inr works_response
   \<and> status_code works_response = 200
   \<and> get_works (sample_env no_json (Inr works_response)) ''0000-0001-2345-6789'' 1
     = Inr (PDict [(''works'', PList [sample_entry 1])])
   \<and> int (length [sample_entry 1]) \<le> 1"
proof -
  have h1: "requests_get (sample_env no_json (Inr works_response))
              (works_url ''0000-0001-2345-6789'') = Inr works_response"
    by (simp add: sample_env_def)
  have h2: "status_code works_response = 200"
    by (simp add: works_response_def)
  have h4: "(0::int) \<le> 1" by simp
  from get_works_entries [OF h1 h2 sample_get_works h4]
  have "\<exists>works. PDict [(''works'', PList [sample_entry 1])] = PDict [(''works'', PList works)]
          \<and> int (length works) \<le> 1"
    by blast
  then have "int (length [sample_entry 1]) \<le> 1" by auto
  with h1 h2 sample_get_works show ?thesis by simp
qed

text \<open>
  C8 as stated fails for a negative limit: \<open>groups[:-1]\<close> drops the last group, so two
  groups and the limit \<open>-1\<close> give one entry, which is more than \<open>-1\<close>.
\<close>

theorem get_works_negative_limit_counterexample:
  "get_works (sample_env no_json (Inr works_response)) ''0000-0001-2345-6789'' (- 1)
     = Inr (PDict [(''works'', PList [sample_entry 1])])
   \<and> \<not> int (length [sample_entry 1]) \<le> - 1"
  by (simp add: get_works_def sample_env_def works_response_def py_slice_to_def
        work_of_group_def first_summary_def work_entry_def nested_value_def
        sample_group_def sample_summary_def sample_entry_def)

section \<open>Properties of the best-effort JSON extraction\<close>

text \<open>The group found by the search is a brace-delimited text inside a fence that opens
  with the word \<open>json\<close>, with only white space between the fence and the braces.\<close>

lemma takeWhile_all: "list_all P (takeWhile P xs)"
  by (induction xs) auto

lemma dropWhile_spaces: "list_all P ws \<Longrightarrow> \<not> P c \<Longrightarrow> dropWhile P (ws @ c # r) = c # r"
  by (induction ws) auto

lemma backquote_not_space: "\<not> is_uspace 96"
  by (simp add: is_uspace_def)

lemma brace_not_space: "\<not> is_uspace open_brace"
  by (simp add: is_uspace_def)

lemma lazy_body_shape:
  "lazy_body cs = Some b \<Longrightarrow>
     \<exists>m ws post. cs = m @ close_brace # ws @ fence @ post \<and> b = m @ [close_brace]
        \<and> list_all is_uspace ws"
proof (induction cs arbitrary: b)
  case Nil
  then show ?case by simp
next
  case (Cons c cs)
  show ?case
  proof (cases "c = close_brace \<and> prefix fence (dropWhile is_uspace cs)")
    case True
    then obtain post where p: "dropWhile is_uspace cs = fence @ post"
      by (auto simp: prefix_def)
    have "cs = takeWhile is_uspace cs @ dropWhile is_uspace cs" by simp
    with p have "cs = takeWhile is_uspace cs @ fence @ post" by simp
    moreover have "list_all is_uspace (takeWhile is_uspace cs)"
      by (rule takeWhile_all)
    moreover from True Cons.prems have "b = [] @ [close_brace]" by simp
    ultimately show ?thesis using True
      by (metis append_Nil)
  next
    case False
    with Cons.prems obtain b' where b': "lazy_body cs = Some b'" and b: "b = c # b'"
      by auto
    from Cons.IH [OF b'] obtain m ws post where
      "cs = m @ close_brace # ws @ fence @ post" "b' = m @ [close_brace]" "list_all is_uspace ws"
      by blast
    with b have "c # cs = (c # m) @ close_brace # ws @ fence @ post \<and> b = (c # m) @ [close_brace]
                 \<and> list_all is_uspace ws"
      by simp
    then show ?thesis by blast
  qed
qed

lemma match_here_shape:
  assumes "match_here s = Some g"
  shows "\<exists>ws1 m ws2 post.
           s = fence @ json_word @ ws1 @ g @ ws2 @ fence @ post
           \<and> g = open_brace # m @ [close_brace]
           \<and> list_all is_uspace ws1 \<and> list_all is_uspace ws2"
proof -
  from assms have pre: "prefix (fence @ json_word) s"
    by (auto simp: match_here_def split: if_splits)
  then obtain rest where s: "s = (fence @ json_word) @ rest"
    by (auto simp: prefix_def)
  have len: "length (fence @ json_word) = 7" by (simp add: fence_def json_word_def)
  from s len have d: "drop 7 s = rest" by simp
  from assms pre d obtain cs b where
    dw: "dropWhile is_uspace rest = open_brace # cs" and lb: "lazy_body cs = Some b"
    and g: "g = open_brace # b"
    by (auto simp: match_here_def split: list.splits if_splits)
  from lazy_body_shape [OF lb] obtain m ws post where
    cs: "cs = m @ close_brace # ws @ fence @ post" and b: "b = m @ [close_brace]"
    and ws: "list_all is_uspace ws" by blast
  have "rest = takeWhile is_uspace rest @ dropWhile is_uspace rest" by simp
  with dw cs have "rest = takeWhile is_uspace rest @ open_brace # m @ close_brace # ws @ fence @ post"
    by simp
  with s g b have "s = fence @ json_word @ takeWhile is_uspace rest @ g @ ws @ fence @ post"
    by simp
  moreover have "list_all is_uspace (takeWhile is_uspace rest)"
    by (rule takeWhile_all)
  ultimately show ?thesis using g b ws by blast
qed

lemma re_search_shape:
  "re_search_json_block s = Some g \<Longrightarrow>
     \<exists>pre ws1 m ws2 post.
        s = pre @ fence @ json_word @ ws1 @ g @ ws2 @ fence @ post
        \<and> g = open_brace # m @ [close_brace]
        \<and> list_all is_uspace ws1 \<and> list_all is_uspace ws2"
proof (induction s)
  case Nil
  then show ?case by simp
next
  case (Cons c cs)
  show ?case
  proof (cases "match_here (c # cs)")
    case (Some g')
    with Cons.prems have "g' = g" by simp
    with Some match_here_shape [of "c # cs" g] show ?thesis
      by (metis append_Nil)
  next
    case None
    with Cons.prems have "re_search_json_block cs = Some g" by simp
    from Cons.IH [OF this] obtain pre ws1 m ws2 post where
      "cs = pre @ fence @ json_word @ ws1 @ g @ ws2 @ fence @ post"
      "g = open_brace # m @ [close_brace]" "list_all is_uspace ws1" "list_all is_uspace ws2"
      by blast
    then have "c # cs = (c # pre) @ fence @ json_word @ ws1 @ g @ ws2 @ fence @ post
               \<and> g = open_brace # m @ [close_brace]
               \<and> list_all is_uspace ws1 \<and> list_all is_uspace ws2"
      by simp
    then show ?thesis by blast
  qed
qed

text \<open>Conversely, a text that holds a fenced block is matched.\<close>

lemma lazy_body_complete:
  "list_all is_uspace ws \<Longrightarrow> lazy_body (m @ close_brace # ws @ fence @ post) \<noteq> None"
proof (induction m)
  case Nil
  have "dropWhile is_uspace (ws @ fence @ post) = fence @ post"
    using dropWhile_spaces [OF Nil backquote_not_space, of "[96, 96] @ post"]
    by (simp add: fence_def)
  then show ?case by simp
next
  case (Cons c m)
  then show ?case by auto
qed

lemma match_here_complete:
  assumes "list_all is_uspace ws1" and "list_all is_uspace ws2"
  shows "match_here (fence @ json_word @ ws1 @ open_brace # m @ close_brace # ws2 @ fence @ post)
           \<noteq> None"
proof -
  let ?rest = "ws1 @ open_brace # m @ close_brace # ws2 @ fence @ post"
  have len: "length (fence @ json_word) = 7" by (simp add: fence_def json_word_def)
  have "drop 7 ((fence @ json_word) @ ?rest) = ?rest"
    using len by simp
  then have d: "drop 7 (fence @ json_word @ ?rest) = ?rest" by simp
  have dw: "dropWhile is_uspace ?rest = open_brace # m @ close_brace # ws2 @ fence @ post"
    using assms(1) brace_not_space by (rule dropWhile_spaces)
  have p: "prefix (fence @ json_word) (fence @ json_word @ ?rest)"
    by (simp add: prefix_def)
  from lazy_body_complete [OF assms(2), of m post] obtain b where
    "lazy_body (m @ close_brace # ws2 @ fence @ post) = Some b" by auto
  with p d dw show ?thesis
    by (simp add: match_here_def)
qed

lemma re_search_complete:
  assumes "list_all is_uspace ws1" and "list_all is_uspace ws2"
  shows "re_search_json_block
           (pre @ fence @ json_word @ ws1 @ open_brace # m @ close_brace # ws2 @ fence @ post)
           \<noteq> None"
proof (induction pre)
  case Nil
  let ?s = "fence @ json_word @ ws1 @ open_brace # m @ close_brace # ws2 @ fence @ post"
  from match_here_complete [OF assms, of m post] obtain g where g: "match_here ?s = Some g"
    by auto
  have "?s = 96 # tl ?s" by (simp add: fence_def)
  then obtain c cs where "?s = c # cs" by blast
  with g show ?case by simp
next
  case (Cons c pre)
  then show ?case by (auto split: option.splits)
qed

lemma re_search_no_fence: "96 \<notin> set s \<Longrightarrow> re_search_json_block s = None"
  by (induction s) (auto simp: match_here_def fence_def prefix_def)

lemma find_char_Some: "find_char c s = Some i \<Longrightarrow> i < length s \<and> s ! i = c"
  by (induction s arbitrary: i) (auto split: if_splits)

lemma find_char_None: "find_char c s = None \<longleftrightarrow> c \<notin> set s"
  by (induction s) auto

lemma find_char_append: "c \<notin> set a \<Longrightarrow> find_char c (a @ c # r) = Some (length a)"
  by (induction a) auto

lemma find_char_skip:
  "c \<notin> set a \<Longrightarrow> find_char c r = Some i \<Longrightarrow> find_char c (a @ r) = Some (length a + i)"
  by (induction a) auto

lemma brace_substring_none:
  assumes "open_brace \<notin> set s \<or> close_brace \<notin> set s"
  shows "brace_substring s = None"
proof -
  from assms consider "find_char open_brace s = None" | "find_char close_brace (rev s) = None"
    by (auto simp: find_char_None)
  then show ?thesis
    by cases (simp_all add: brace_substring_def py_find_def py_rfind_def Let_def)
qed

lemma brace_substring_head:
  assumes "brace_substring s = Some j"
  shows "j = [] \<or> (\<exists>t. j = open_brace # t)"
proof -
  from assms obtain i where f: "find_char open_brace s = Some i"
    and j: "j = py_slice s (int i) (py_rfind s close_brace + 1)"
    by (auto simp: brace_substring_def py_find_def Let_def split: option.splits if_splits)
  from find_char_Some [OF f] have i: "i < length s" "s ! i = open_brace" by simp_all
  define k where "k = slice_index (length s) (py_rfind s close_brace + 1)"
  from i have si: "slice_index (length s) (int i) = i" by (simp add: slice_index_def)
  with j have j': "j = drop i (take k s)" by (simp add: py_slice_def k_def)
  show ?thesis
  proof (cases "j = []")
    case True
    then show ?thesis by simp
  next
    case False
    with j' have "\<not> length (take k s) \<le> i"
      using drop_eq_Nil [of i "take k s"] by blast
    then have lt: "i < length (take k s)" by (simp only: not_le)
    then have "drop i (take k s) = (take k s) ! i # drop (Suc i) (take k s)"
      by (rule Cons_nth_drop_Suc [symmetric])
    moreover from lt have "(take k s) ! i = s ! i" by simp
    ultimately show ?thesis using j' i by simp
  qed
qed

lemma take_whole: "take (length xs) (xs @ ys) = xs"
  by simp

lemma brace_substring_span:
  assumes "open_brace \<notin> set a" and "close_brace \<notin> set b"
  shows "brace_substring (a @ open_brace # m @ close_brace # b)
           = Some (open_brace # m @ [close_brace])"
proof -
  let ?s = "a @ open_brace # m @ close_brace # b"
  have f: "find_char open_brace ?s = Some (length a)"
    using assms(1) by (rule find_char_append)
  have "rev ?s = rev b @ close_brace # (rev m @ open_brace # rev a)" by simp
  moreover have "close_brace \<notin> set (rev b)" using assms(2) by simp
  ultimately have r: "find_char close_brace (rev ?s) = Some (length b)"
    using find_char_append [of close_brace "rev b" "rev m @ open_brace # rev a"] by simp
  have e: "py_rfind ?s close_brace + 1 = int (length a + length m + 2)"
    using r by (simp add: py_rfind_def)
  have st: "py_find ?s open_brace = int (length a)"
    using f by (simp add: py_find_def)
  have i1: "slice_index (length ?s) (int (length a)) = length a"
    by (simp add: slice_index_def)
  have i2: "slice_index (length ?s) (int (length a + length m + 2))
              = length (a @ open_brace # m @ [close_brace])"
    by (simp add: slice_index_def)
  have "take (length (a @ open_brace # m @ [close_brace])) ((a @ open_brace # m @ [close_brace]) @ b)
          = a @ open_brace # m @ [close_brace]"
    by (rule take_whole)
  then have "take (length (a @ open_brace # m @ [close_brace])) ?s = a @ open_brace # m @ [close_brace]"
    by simp
  then have "py_slice ?s (int (length a)) (int (length a + length m + 2))
               = open_brace # m @ [close_brace]"
    unfolding py_slice_def i1 i2 by simp
  with e st show ?thesis
    by (simp add: brace_substring_def Let_def)
qed

text \<open>When the last closing brace stands before the first opening brace the slice is
  empty.\<close>

lemma brace_substring_crossed:
  assumes "open_brace \<notin> set a" and "close_brace \<notin> set b" and "open_brace \<in> set b"
  shows "brace_substring (a @ close_brace # b) = Some []"
proof -
  let ?s = "a @ close_brace # b"
  from assms(3) obtain i where fb: "find_char open_brace b = Some i"
    by (cases "find_char open_brace b") (auto simp: find_char_None)
  have "open_brace \<notin> set (a @ [close_brace])" using assms(1) by simp
  from find_char_skip [OF this fb]
  have f: "find_char open_brace ?s = Some (length a + 1 + i)" by simp
  have "rev ?s = rev b @ close_brace # rev a" by simp
  moreover have "close_brace \<notin> set (rev b)" using assms(2) by simp
  ultimately have r: "find_char close_brace (rev ?s) = Some (length b)"
    using find_char_append [of close_brace "rev b" "rev a"] by simp
  have e: "py_rfind ?s close_brace + 1 = int (length a + 1)"
    using r by (simp add: py_rfind_def)
  have st: "py_find ?s open_brace = int (length a + 1 + i)"
    using f by (simp add: py_find_def)
  have sl: "py_slice ?s (py_find ?s open_brace) (py_rfind ?s close_brace + 1) = []"
    unfolding e st by (simp add: py_slice_def slice_index_def)
  have c1: "py_find ?s open_brace \<noteq> - 1" unfolding st by simp
  have c2: "py_rfind ?s close_brace + 1 \<noteq> 0" unfolding e by simp
  show ?thesis
    unfolding brace_substring_def Let_def using sl c1 c2 by simp
qed

text \<open>
  C10 (amended). \<open>json.loads\<close> is a library function: it is taken as given, with the two
  facts that it rejects the empty text with \<open>JSONDecodeError\<close> and that a text starting
  with an opening brace parses, if at all, to an object. Then, for every input string:
  \<^item> \<open>None\<close> and the empty string give \<open>None\<close>;
  \<^item> the function returns a parsed object or \<open>None\<close>, or lets an exception of
    \<open>json.loads\<close> other than \<open>JSONDecodeError\<close> reach the caller; it cannot raise when
    \<open>json.loads\<close> raises nothing but \<open>JSONDecodeError\<close>;
  \<^item> the fenced block is tried first: the search finds a group exactly when the text
    holds a fence, the word \<open>json\<close>, white space, a brace-delimited text, white space and
    a fence; when the group parses, its value is the result, and an exception other than
    \<open>JSONDecodeError\<close> leaves the function there;
  \<^item> otherwise (no fenced block, or one that does not parse) the text from the first
    opening brace to the last closing brace is parsed and its value is the result, with
    \<open>None\<close> when it does not parse, when a brace is missing, or when the last closing
    brace stands before the first opening brace.
\<close>

theorem extract_json_best_effort:
  assumes "json_loads E [] = Inl JSONDecodeError"
    and "\<forall>t v. json_loads E (open_brace # t) = Inr v \<longrightarrow> is_dict v"
  shows "extract_json_from_deepseek_response E None = Inr PNone
    \<and> extract_json_from_deepseek_response E (Some []) = Inr PNone
    \<and> ((\<exists>v. extract_json_from_deepseek_response E (Some s) = Inr v \<and> (v = PNone \<or> is_dict v))
       \<or> (\<exists>e t. extract_json_from_deepseek_response E (Some s) = Inl e
                 \<and> e \<noteq> JSONDecodeError \<and> json_loads E t = Inl e))
    \<and> ((\<forall>t e. json_loads E t = Inl e \<longrightarrow> e = JSONDecodeError)
       \<longrightarrow> (\<exists>v. extract_json_from_deepseek_response E (Some s) = Inr v
                \<and> (v = PNone \<or> is_dict v)))
    \<and> (\<forall>g. re_search_json_block s = Some g \<longrightarrow>
          (\<exists>pre ws1 m ws2 post.
              s = pre @ fence @ json_word @ ws1 @ g @ ws2 @ fence @ post
              \<and> g = open_brace # m @ [close_brace]
              \<and> list_all is_uspace ws1 \<and> list_all is_uspace ws2)
          \<and> (\<forall>v. json_loads E g = Inr v
                 \<longrightarrow> extract_json_from_deepseek_response E (Some s) = Inr v)
          \<and> (\<forall>e. json_loads E g = Inl e \<and> e \<noteq> JSONDecodeError
                 \<longrightarrow> extract_json_from_deepseek_response E (Some s) = Inl e))
    \<and> ((\<exists>pre ws1 m ws2 post.
           s = pre @ fence @ json_word @ ws1 @ open_brace # m @ close_brace # ws2 @ fence @ post
           \<and> list_all is_uspace ws1 \<and> list_all is_uspace ws2)
       \<longrightarrow> re_search_json_block s \<noteq> None)
    \<and> ((re_search_json_block s = None
         \<or> (\<exists>g. re_search_json_block s = Some g \<and> json_loads E g = Inl JSONDecodeError))
        \<longrightarrow>
          ((open_brace \<notin> set s \<or> close_brace \<notin> set s
              \<longrightarrow> extract_json_from_deepseek_response E (Some s) = Inr PNone)
           \<and> (\<forall>a m b. s = a @ open_brace # m @ close_brace # b
                 \<and> open_brace \<notin> set a \<and> close_brace \<notin> set b
               \<longrightarrow> extract_json_from_deepseek_response E (Some s)
                     = (case json_loads E (open_brace # m @ [close_brace]) of
                          Inr v \<Rightarrow> Inr v
                        | Inl e \<Rightarrow> if e = JSONDecodeError then Inr PNone else Inl e))
           \<and> (\<forall>a b. s = a @ close_brace # b
                 \<and> open_brace \<notin> set a \<and> close_brace \<notin> set b \<and> open_brace \<in> set b
               \<longrightarrow> extract_json_from_deepseek_response E (Some s) = Inr PNone)))"
proof -
  let ?x = "extract_json_from_deepseek_response E (Some s)"
  have 1: "extract_json_from_deepseek_response E None = Inr PNone"
    by (simp add: extract_json_from_deepseek_response_def)
  have 2: "extract_json_from_deepseek_response E (Some []) = Inr PNone"
    by (simp add: extract_json_from_deepseek_response_def)
  have fenced: "is_dict v" if "re_search_json_block s = Some g" "json_loads E g = Inr v" for g v
    using re_search_shape [OF that(1)] that(2) assms(2) by auto
  have braces: "is_dict v" if "brace_substring s = Some j" "json_loads E j = Inr v" for j v
    using brace_substring_head [OF that(1)] that(2) assms by auto
  have 3: "(\<exists>v. ?x = Inr v \<and> (v = PNone \<or> is_dict v))
       \<or> (\<exists>e t. ?x = Inl e \<and> e \<noteq> JSONDecodeError \<and> json_loads E t = Inl e)"
    using fenced braces
    by (auto simp: extract_json_from_deepseek_response_def fenced_attempt_def brace_attempt_def
             split: option.splits sum.splits)
  have 4: "(\<forall>t e. json_loads E t = Inl e \<longrightarrow> e = JSONDecodeError)
       \<longrightarrow> (\<exists>v. ?x = Inr v \<and> (v = PNone \<or> is_dict v))"
    using 3 by blast
  have 5: "\<forall>g. re_search_json_block s = Some g \<longrightarrow>
          (\<exists>pre ws1 m ws2 post.
              s = pre @ fence @ json_word @ ws1 @ g @ ws2 @ fence @ post
              \<and> g = open_brace # m @ [close_brace]
              \<and> list_all is_uspace ws1 \<and> list_all is_uspace ws2)
          \<and> (\<forall>v. json_loads E g = Inr v \<longrightarrow> ?x = Inr v)
          \<and> (\<forall>e. json_loads E g = Inl e \<and> e \<noteq> JSONDecodeError \<longrightarrow> ?x = Inl e)"
  proof (intro allI impI conjI)
    fix g assume g: "re_search_json_block s = Some g"
    from re_search_shape [OF g]
    show "\<exists>pre ws1 m ws2 post.
              s = pre @ fence @ json_word @ ws1 @ g @ ws2 @ fence @ post
              \<and> g = open_brace # m @ [close_brace]
              \<and> list_all is_uspace ws1 \<and> list_all is_uspace ws2" .
    from g have ne: "s \<noteq> []" by auto
    fix v assume "json_loads E g = Inr v"
    with g ne show "?x = Inr v"
      by (simp add: extract_json_from_deepseek_response_def fenced_attempt_def)
  next
    fix g e assume g: "re_search_json_block s = Some g"
      and e: "json_loads E g = Inl e \<and> e \<noteq> JSONDecodeError"
    from g have ne: "s \<noteq> []" by auto
    with g e show "?x = Inl e"
      by (simp add: extract_json_from_deepseek_response_def fenced_attempt_def)
  qed
  have 6: "(\<exists>pre ws1 m ws2 post.
           s = pre @ fence @ json_word @ ws1 @ open_brace # m @ close_brace # ws2 @ fence @ post
           \<and> list_all is_uspace ws1 \<and> list_all is_uspace ws2)
       \<longrightarrow> re_search_json_block s \<noteq> None"
    using re_search_complete by blast
  have 7: "(re_search_json_block s = None
         \<or> (\<exists>g. re_search_json_block s = Some g \<and> json_loads E g = Inl JSONDecodeError))
        \<longrightarrow>
          ((open_brace \<notin> set s \<or> close_brace \<notin> set s \<longrightarrow> ?x = Inr PNone)
           \<and> (\<forall>a m b. s = a @ open_brace # m @ close_brace # b
                 \<and> open_brace \<notin> set a \<and> close_brace \<notin> set b
               \<longrightarrow> ?x
                     = (case json_loads E (open_brace # m @ [close_brace]) of
                          Inr v \<Rightarrow> Inr v
                        | Inl e \<Rightarrow> if e = JSONDecodeError then Inr PNone else Inl e))
           \<and> (\<forall>a b. s = a @ close_brace # b
                 \<and> open_brace \<notin> set a \<and> close_brace \<notin> set b \<and> open_brace \<in> set b
               \<longrightarrow> ?x = Inr PNone))"
  proof (intro impI)
    assume "re_search_json_block s = None
         \<or> (\<exists>g. re_search_json_block s = Some g \<and> json_loads E g = Inl JSONDecodeError)"
    then have fa: "fenced_attempt E s = None"
      by (auto simp: fenced_attempt_def)
    then have x: "?x = brace_attempt E s"
      by (cases s)
         (simp_all add: extract_json_from_deepseek_response_def brace_attempt_def
            brace_substring_none)
    show "(open_brace \<notin> set s \<or> close_brace \<notin> set s \<longrightarrow> ?x = Inr PNone)
           \<and> (\<forall>a m b. s = a @ open_brace # m @ close_brace # b
                 \<and> open_brace \<notin> set a \<and> close_brace \<notin> set b
               \<longrightarrow> ?x
                     = (case json_loads E (open_brace # m @ [close_brace]) of
                          Inr v \<Rightarrow> Inr v
                        | Inl e \<Rightarrow> if e = JSONDecodeError then Inr PNone else Inl e))
           \<and> (\<forall>a b. s = a @ close_brace # b
                 \<and> open_brace \<notin> set a \<and> close_brace \<notin> set b \<and> open_brace \<in> set b
               \<longrightarrow> ?x = Inr PNone)"
      unfolding x
      using assms(1)
      by (auto simp: brace_attempt_def brace_substring_none brace_substring_span
            brace_substring_crossed)
  qed
  from 1 2 3 4 5 6 7 show ?thesis by blast
qed

theorem extract_json_best_effort_witness:
  "json_loads (sample_env braces_only (Inl RequestException)) [] = Inl JSONDecodeError
   \<and> re_search_json_block fenced_answer = Some (text_of ''{}'')
   \<and> extract_json_from_deepseek_response (sample_env braces_only (Inl RequestException))
        (Some fenced_answer) = Inr (PDict [])
   \<and> re_search_json_block brace_answer = None
   \<and> extract_json_from_deepseek_response (sample_env braces_only (Inl RequestException))
        (Some brace_answer) = Inr (PDict [])
   \<and> re_search_json_block plain_answer = None
   \<and> extract_json_from_deepseek_response (sample_env braces_only (Inl RequestException))
        (Some plain_answer) = Inr PNone"
proof -
  let ?E = "sample_env braces_only (Inl RequestException)"
  have h1: "json_loads ?E [] = Inl JSONDecodeError"
    by (simp add: sample_env_def braces_only_def text_of_def)
  have h2: "\<forall>t v. json_loads ?E (open_brace # t) = Inr v \<longrightarrow> is_dict v"
    by (auto simp: sample_env_def braces_only_def split: if_splits)
  have l: "json_loads ?E (text_of ''{}'') = Inr (PDict [])"
    by (simp add: sample_env_def braces_only_def)
  have g: "re_search_json_block fenced_answer = Some (text_of ''{}'')"
    by (simp add: fenced_answer_def fence_def json_word_def text_of_def match_here_def
          is_uspace_def)
  have nb: "re_search_json_block brace_answer = None"
    by (rule re_search_no_fence) (simp add: brace_answer_def text_of_def)
  have np: "re_search_json_block plain_answer = None"
    by (rule re_search_no_fence) (simp add: plain_answer_def text_of_def)
  have sb: "brace_answer = text_of ''Result: '' @ open_brace # [] @ close_brace # text_of '' ok''"
    by (simp add: brace_answer_def text_of_def)
  have cb: "open_brace \<notin> set (text_of ''Result: '') \<and> close_brace \<notin> set (text_of '' ok'')"
    by (simp add: text_of_def)
  have pp: "open_brace \<notin> set plain_answer"
    by (simp add: plain_answer_def text_of_def)
  note t1 = extract_json_best_effort [OF h1 h2, of fenced_answer]
  note t2 = extract_json_best_effort [OF h1 h2, of brace_answer]
  note t3 = extract_json_best_effort [OF h1 h2, of plain_answer]
  from t1 g l have r1: "extract_json_from_deepseek_response ?E (Some fenced_answer)
                          = Inr (PDict [])"
    by blast
  from t2 nb sb cb
  have "extract_json_from_deepseek_response ?E (Some brace_answer)
          = (case json_loads ?E (open_brace # [] @ [close_brace]) of
               Inr v \<Rightarrow> Inr v
             | Inl e \<Rightarrow> if e = JSONDecodeError then Inr PNone else Inl e)"
    by blast
  with l have r2: "extract_json_from_deepseek_response ?E (Some brace_answer) = Inr (PDict [])"
    by (simp add: text_of_def)
  from t3 np pp have r3: "extract_json_from_deepseek_response ?E (Some plain_answer) = Inr PNone"
    by blast
  from h1 g r1 nb r2 np r3 show ?thesis by simp
qed

text \<open>
  C10 as stated fails: both \<open>try\<close> blocks catch \<open>json.JSONDecodeError\<close> only, and
  \<open>json.loads\<close> raises \<open>ValueError\<close> on an integer literal of more than 4300 digits, so
  this input makes the function raise.
\<close>

theorem extract_json_raises_counterexample:
  "extract_json_from_deepseek_response (sample_env digit_limit_loads (Inl RequestException))
     (Some huge_number_text) = Inl ValueError"
proof -
  let ?E = "sample_env digit_limit_loads (Inl RequestException)"
  have nf: "re_search_json_block huge_number_text = None"
    by (rule re_search_no_fence) (simp add: huge_number_text_def)
  have "brace_substring ([] @ open_brace # ([34, 110, 34, 58, 32] @ replicate 4301 57)
                           @ close_brace # [])
          = Some (open_brace # ([34, 110, 34, 58, 32] @ replicate 4301 57) @ [close_brace])"
    by (rule brace_substring_span) simp_all
  then have bs: "brace_substring huge_number_text = Some huge_number_text"
    by (simp add: huge_number_text_def)
  have l: "json_loads ?E huge_number_text = Inl ValueError"
    by (simp add: sample_env_def digit_limit_loads_def)
  have ne: "huge_number_text \<noteq> []"
    by (simp add: huge_number_text_def)
  from nf bs l ne show ?thesis
    by (simp add: extract_json_from_deepseek_response_def fenced_attempt_def brace_attempt_def)
qed

section \<open>Properties of the batch runs\<close>

subsection \<open>Records keep their row\<close>

lemma model_dump_id: "serialisable v \<Longrightarrow> model_dump v = v"
  by (induction v) (auto simp: list_all_iff intro!: map_idI)


lemma process_row_original:
  "process_row A E idx row = Append r \<Longrightarrow> py_field r ''original_data'' = Some row"
  by (auto simp: process_row_def result_dict_def Let_def
           split: if_splits sum.splits option.splits)

lemma OrcidSearchResult_original:
  assumes "OrcidSearchResult fs c row = Inr r"
    and "map_of fs ''original_data'' = None"
  shows "py_field r ''original_data'' = Some row"
  using assms by (auto simp: OrcidSearchResult_def map_add_def split: if_splits)

lemma found_result_original:
  "found_result researcher row = Inr r \<Longrightarrow> py_field r ''original_data'' = Some row"
  by (cases researcher) (auto simp: found_result_def elim!: OrcidSearchResult_original)

lemma not_found_result_original:
  "not_found_result kvs = Inr r \<Longrightarrow> py_field r ''original_data'' = Some (PDict kvs)"
  by (auto simp: not_found_result_def fallback_fields_def elim!: OrcidSearchResult_original)

lemma error_result_original:
  "error_result E kvs e = Inr r \<Longrightarrow> py_field r ''original_data'' = Some (PDict kvs)"
  by (auto simp: error_result_def fallback_fields_def elim!: OrcidSearchResult_original)

lemma deepseek_try_original:
  "deepseek_try A E idx kvs = Inr r \<Longrightarrow> py_field r ''original_data'' = Some (PDict kvs)"
  by (auto simp: deepseek_try_def split: sum.splits if_splits
           dest: found_result_original not_found_result_original)

lemma deepseek_row_original:
  "deepseek_row A E idx row = Append r \<Longrightarrow> py_field r ''original_data'' = Some row"
  by (cases row)
     (auto simp: deepseek_row_def split: sum.splits
           dest: deepseek_try_original error_result_original)



lemma OrcidSearchResult_is_obj: "OrcidSearchResult fs c row = Inr r \<Longrightarrow> \<exists>attrs. r = PObj attrs"
  by (auto simp: OrcidSearchResult_def split: if_splits)

lemma model_dump_field:
  "py_field (PObj attrs) k = Some v \<Longrightarrow> py_field (model_dump (PObj attrs)) k = Some (model_dump v)"
  by (induction attrs) (auto split: if_splits)




lemma deepseek_row_obj: "deepseek_row A E idx row = Append r \<Longrightarrow> \<exists>attrs. r = PObj attrs"
  by (cases row)
     (auto simp: deepseek_row_def deepseek_try_def found_result_def not_found_result_def
             error_result_def
           split: sum.splits if_splits pyval.splits dest: OrcidSearchResult_is_obj)

lemma deepseek_row_dumped:
  assumes "deepseek_row A E idx row = Append r" and "serialisable row"
  shows "py_field (model_dump r) ''original_data'' = Some row"
proof -
  from deepseek_row_obj [OF assms(1)] obtain attrs where r: "r = PObj attrs" by blast
  from deepseek_row_original [OF assms(1)] r
  have "py_field (PObj attrs) ''original_data'' = Some row" by simp
  from model_dump_field [OF this] r model_dump_id [OF assms(2)] show ?thesis by simp
qed


lemma ex_nameless_deepseek:
  "deepseek_row nameless_agents offline_env idx sample_row = Append not_found_record"
  by (simp add: deepseek_row_def deepseek_try_def sample_row_def nameless_agents_def
      extract_json_of_value_def extract_json_from_deepseek_response_def fenced_attempt_def
      brace_attempt_def text_of_def offline_env_def sample_env_def no_json_def
      brace_substring_def py_find_def py_rfind_def match_here_def fence_def
      has_researchers_def not_found_result_def fallback_fields_def OrcidSearchResult_def
      get_or2_def get_or_def optional_str_def not_found_record_def)


lemma ex_matching_row:
  "process_row matching_agents offline_env idx sample_row = Append matched_record"
  by (simp add: process_row_def sample_row_def matching_agents_def json_dumps_def
       parse_extract_result_def attr_or_none_def run_search_variants_def variant_names_def
       search_variants_def List.map_filter_def search_one_def search_payload_def
       wanted_fields_def pick_best_def picker_payload_def extract_works_def has_attr_def
       picked_profile_def works_payload_def get_attr_def apply_works_def set_if_some_def
       result_dict_def matched_record_def)

text \<open>
  C6. Every record that a batch run appends for a row carries that row under
  \<open>original_data\<close>: in the multi-agent run (a record exists only for a matched row) and in
  the DeepSeek run, where the record is written when a researcher was found, when nothing
  was found and when the row raised. For a JSON row the dictionary dumped from the record
  carries the row unchanged as well.
\<close>

theorem original_data_round_trip:
  "(process_row A E idx row = Append r \<longrightarrow> py_field r ''original_data'' = Some row)
   \<and> (deepseek_row A E idx row = Append r \<longrightarrow>
        py_field r ''original_data'' = Some row
        \<and> (serialisable row \<longrightarrow> py_field (model_dump r) ''original_data'' = Some row))"
  using process_row_original deepseek_row_original deepseek_row_dumped by blast

theorem original_data_round_trip_witness:
  "process_row matching_agents offline_env 1 sample_row = Append matched_record
   \<and> py_field matched_record ''original_data'' = Some sample_row
   \<and> deepseek_row nameless_agents offline_env 1 sample_row = Append not_found_record
   \<and> serialisable sample_row
   \<and> py_field not_found_record ''original_data'' = Some sample_row
   \<and> py_field (model_dump not_found_record) ''original_data'' = Some sample_row"
proof -
  have s: "serialisable sample_row" by (simp add: sample_row_def)
  from original_data_round_trip [of nameless_agents offline_env 1 sample_row not_found_record]
    ex_nameless_deepseek s
  have "py_field not_found_record ''original_data'' = Some sample_row
        \<and> py_field (model_dump not_found_record) ''original_data'' = Some sample_row"
    by simp
  moreover
  from original_data_round_trip [of matching_agents offline_env 1 sample_row matched_record]
    ex_matching_row
  have "py_field matched_record ''original_data'' = Some sample_row"
    by simp
  ultimately show ?thesis using ex_nameless_deepseek ex_matching_row s by simp
qed

subsection \<open>The empty batch\<close>

text \<open>
  C7. When the table yields zero rows (the response is an empty list, or a dictionary
  whose \<open>result\<close> is one) the multi-agent task of a registered task identifier raises
  nothing, ends in status \<open>completed\<close>, and stores a result with an empty \<open>results\<close> list,
  \<open>total_processed\<close> 0 and \<open>successful_matches\<close> 0.
\<close>

theorem zero_rows_complete:
  assumes "rows_of_response resp = PList []" and "store task_id = Some t"
  shows "snd (table_search_task A E model_name store task_id (Inr resp)) = None
    \<and> map_option t_status (fst (table_search_task A E model_name store task_id (Inr resp)) task_id)
        = Some ''completed''
    \<and> map_option t_result (fst (table_search_task A E model_name store task_id (Inr resp)) task_id)
        = Some (Some (PDict [(''results'', PList []), (''total_processed'', PInt 0),
                             (''successful_matches'', PInt 0),
                             (''model_used'', PStr model_name)]))"
  using assms by (simp add: table_search_task_def update_task_status_def)

theorem zero_rows_complete_witness:
  "rows_of_response (PList []) = PList []
   \<and> snd (table_search_task nameless_agents offline_env ''o4-mini'' sample_store ''task-1''
            (Inr (PList []))) = None
   \<and> map_option t_result
        (fst (table_search_task nameless_agents offline_env ''o4-mini'' sample_store ''task-1''
                (Inr (PList []))) ''task-1'')
        = Some (Some (PDict [(''results'', PList []), (''total_processed'', PInt 0),
                             (''successful_matches'', PInt 0),
                             (''model_used'', PStr ''o4-mini'')]))"
proof -
  have h1: "rows_of_response (PList []) = PList []" by (simp add: rows_of_response_def)
  have h2: "sample_store ''task-1''
              = Some \<lparr>t_status = ''pending'', t_result = None, t_error = None\<rparr>"
    by (simp add: sample_store_def)
  from zero_rows_complete [where resp = "PList []" and task_id = "''task-1''"
      and store = sample_store
      and A = nameless_agents and E = offline_env and model_name = "''o4-mini''", OF h1 h2] h1
  show ?thesis by simp
qed

subsection \<open>One record per row\<close>














subsection \<open>Rows without a candidate\<close>







end
